theory Spec2Isabelle
  imports Main "HOL-Library.Multiset"
begin

section \<open>Values, text and the Item entity\<close>

text \<open>
  The service of \<^verbatim>\<open>app/main.py\<close> and \<^verbatim>\<open>app/crud.py\<close> stores one kind of entity, the
  Item, in one table. Python is dynamically typed: an attribute of an item and a value of
  an update payload (a JSON object) is any Python value. The model keeps the three kinds
  the columns of the table take: \<^verbatim>\<open>None\<close>, an integer and a string.
\<close>

datatype pyval = PNone | PInt int | PStr string

text \<open>Decimal text of an integer, as an f-string prints it.\<close>

fun digits :: "nat \<Rightarrow> string" where
  "digits n =
     (if n < 10 then [''0123456789'' ! n]
      else digits (n div 10) @ [''0123456789'' ! (n mod 10)])"

declare digits.simps [simp del]

definition str_int :: "int \<Rightarrow> string" where
  "str_int i = (if i < 0 then CHR ''-'' # digits (nat (- i)) else digits (nat i))"

definition str_pyval :: "pyval \<Rightarrow> string" where
  "str_pyval v = (case v of PNone \<Rightarrow> ''None'' | PInt i \<Rightarrow> str_int i | PStr s \<Rightarrow> s)"

text \<open>
  The messages of the source are Spanish text. A string of the model is the UTF-8 bytes
  of the Python string: the two accented letters of the messages are two bytes each.
\<close>

definition i_acute :: string where
  "i_acute = [CHR 0xC3, CHR 0xAD]"

definition I_acute :: string where
  "I_acute = [CHR 0xC3, CHR 0x8D]"

definition quoted :: "string \<Rightarrow> string" where
  "quoted s = CHR 0x27 # s @ [CHR 0x27]"

text \<open>
  Modelled from the spec: the class \<^verbatim>\<open>Item\<close> of \<^verbatim>\<open>app/models.py\<close>, which is not among
  the sources. The spec gives it an integer \<^verbatim>\<open>id\<close> (the primary key, absent until the
  storage assigns it), a required \<^verbatim>\<open>name\<close>, and possibly further attributes that no
  logic inspects; \<open>extra\<close> holds those, by name. The field \<open>id'\<close> is the attribute
  \<^verbatim>\<open>id\<close>.
\<close>

record Item =
  id' :: pyval
  name :: pyval
  extra :: "(string \<times> pyval) list"

text \<open>
  \<^verbatim>\<open>hasattr\<close>, \<^verbatim>\<open>getattr\<close> and \<^verbatim>\<open>setattr\<close> on an item. The attributes of an item
  are its declared fields; \<open>getattr\<close> is \<open>None\<close> where Python raises AttributeError.
  An assignment to a table entity is not validated, so any value can be assigned.
\<close>

definition hasattr :: "Item \<Rightarrow> string \<Rightarrow> bool" where
  "hasattr item field =
     (field = ''id'' \<or> field = ''name'' \<or> field \<in> fst ` set (extra item))"


definition setattr :: "Item \<Rightarrow> string \<Rightarrow> pyval \<Rightarrow> Item" where
  "setattr item field v =
     (if field = ''id'' then item\<lparr>id' := v\<rparr>
      else if field = ''name'' then item\<lparr>name := v\<rparr>
      else item\<lparr>extra := map (\<lambda>(k, x). if k = field then (k, v) else (k, x)) (extra item)\<rparr>)"

section \<open>Exceptions\<close>

text \<open>
  What a call on the session can raise: SQLAlchemy's IntegrityError, any other
  SQLAlchemyError, or any other Exception; each carries its text (\<^verbatim>\<open>str(e)\<close>).
  IntegrityError is a subclass of SQLAlchemyError, which is a subclass of Exception.
\<close>

datatype storage_exn = IntegrityError string | SQLAlchemyError string | OtherException string

text \<open>
  What a function of the repository or a handler can raise: a storage exception that
  nothing caught, the repository's \<^verbatim>\<open>ItemCRUDError\<close>, or FastAPI's
  \<^verbatim>\<open>HTTPException(status_code, detail)\<close>.
\<close>

datatype exn = Storage storage_exn | ItemCRUDError string | HTTPException nat string

section \<open>The session (SQLModel over SQLite)\<close>

text \<open>
  The storage is a library, not code of the repository; the model states what its calls
  do. A storage failure that does not depend on the data (a lost connection, a locked
  file) can strike any call: \<open>faults\<close> says, for each kind of call of one operation,
  whether it raises and what.
\<close>

datatype call = Get | Add | Delete | Commit | Refresh | Rollback | Exec

type_synonym faults = "call \<Rightarrow> storage_exn option"

text \<open>The change a session holds between \<^verbatim>\<open>add\<close> or \<^verbatim>\<open>delete\<close> and \<^verbatim>\<open>commit\<close>.\<close>

datatype change = Insert Item | Modify Item Item | Remove Item

text \<open>
  \<open>table\<close> is the committed content of the table, its rows in the order they were
  inserted. \<open>pending\<close> is the write in flight. \<open>persistent\<close> is the object the
  session has loaded or flushed, as its row was when they were last synchronised; it is
  how the session knows which row an object it is given again stands for.
\<close>

record session =
  table :: "Item list"
  pending :: "change option"
  persistent :: "Item option"

text \<open>
  \<^verbatim>\<open>get_session\<close> of \<^verbatim>\<open>app/database.py\<close> opens one session per request on the engine
  and closes it when the request ends; what is not committed by then is dropped.
\<close>

definition get_session :: "Item list \<Rightarrow> session" where
  "get_session db = \<lparr>table = db, pending = None, persistent = None\<rparr>"

fun row_ids :: "Item list \<Rightarrow> int list" where
  "row_ids [] = []"
| "row_ids (r # rs) = (case id' r of PInt k \<Rightarrow> k # row_ids rs | _ \<Rightarrow> row_ids rs)"

text \<open>
  SQLite gives a row inserted without a key the key 1 in an empty table, and otherwise
  one more than the largest key in use.
\<close>

definition fresh_id :: "Item list \<Rightarrow> int" where
  "fresh_id t = (case row_ids t of [] \<Rightarrow> 1 | k # ks \<Rightarrow> fold max ks k + 1)"

text \<open>
  The flush of a change against the table: the new table and the object as the flush
  leaves it, or the engine's refusal. The primary key must be an integer no other row
  has, and \<^verbatim>\<open>name\<close> must not be NULL. A value is stored as it was assigned: the
  engine's conversions between storage classes are not modelled. The texts of the
  engine's errors are abbreviated.
\<close>

definition flush :: "change \<Rightarrow> Item list \<Rightarrow> storage_exn + (Item list \<times> Item option)" where
  "flush c t =
     (case c of
        Insert item \<Rightarrow>
          if name item = PNone
          then Inl (IntegrityError ''NOT NULL constraint failed: item.name'')
          else (case id' item of
                  PNone \<Rightarrow>
                    (let created = item\<lparr>id' := PInt (fresh_id t)\<rparr>
                     in Inr (t @ [created], Some created))
                | PInt k \<Rightarrow>
                    if k \<in> set (row_ids t)
                    then Inl (IntegrityError ''UNIQUE constraint failed: item.id'')
                    else Inr (t @ [item], Some item)
                | PStr x \<Rightarrow> Inl (IntegrityError ''datatype mismatch''))
      | Modify old item \<Rightarrow>
          if name item = PNone
          then Inl (IntegrityError ''NOT NULL constraint failed: item.name'')
          else (case id' item of
                  PNone \<Rightarrow> Inl (SQLAlchemyError ''NULL primary key'')
                | PInt k \<Rightarrow>
                    if id' item \<noteq> id' old \<and> k \<in> set (row_ids t)
                    then Inl (IntegrityError ''UNIQUE constraint failed: item.id'')
                    else Inr (map (\<lambda>r. if id' r = id' old then item else r) t, Some item)
                | PStr x \<Rightarrow> Inl (IntegrityError ''datatype mismatch''))
      | Remove old \<Rightarrow> Inr (filter (\<lambda>r. id' r \<noteq> id' old) t, None))"

text \<open>\<^verbatim>\<open>session.get(Item, item_id)\<close>: the row with that primary key, or \<^verbatim>\<open>None\<close>.\<close>

definition session_get :: "faults \<Rightarrow> session \<Rightarrow> int \<Rightarrow> storage_exn + (session \<times> Item option)" where
  "session_get f s item_id =
     (case f Get of
        Some e \<Rightarrow> Inl e
      | None \<Rightarrow>
          (let found = find (\<lambda>r. id' r = PInt item_id) (table s)
           in Inr (s\<lparr>persistent := found\<rparr>, found)))"

text \<open>
  \<^verbatim>\<open>session.add(item)\<close>: an object the session has not loaded is to be inserted; the
  object it has loaded, with the attributes assigned since, is to be written back to its
  row.
\<close>

definition session_add :: "faults \<Rightarrow> session \<Rightarrow> Item \<Rightarrow> storage_exn + session" where
  "session_add f s item =
     (case f Add of
        Some e \<Rightarrow> Inl e
      | None \<Rightarrow>
          Inr (s\<lparr>pending :=
                 Some (case persistent s of None \<Rightarrow> Insert item | Some old \<Rightarrow> Modify old item)\<rparr>))"

definition session_delete :: "faults \<Rightarrow> session \<Rightarrow> Item \<Rightarrow> storage_exn + session" where
  "session_delete f s item =
     (case f Delete of
        Some e \<Rightarrow> Inl e
      | None \<Rightarrow> Inr (s\<lparr>pending := Some (Remove item)\<rparr>))"

text \<open>
  \<^verbatim>\<open>session.commit()\<close>: flush the pending change and make it durable. When it raises,
  the table is as it was.
\<close>

definition session_commit :: "faults \<Rightarrow> session \<Rightarrow> storage_exn + session" where
  "session_commit f s =
     (case f Commit of
        Some e \<Rightarrow> Inl e
      | None \<Rightarrow>
          (case pending s of
             None \<Rightarrow> Inr s
           | Some c \<Rightarrow>
               (case flush c (table s) of
                  Inl e \<Rightarrow> Inl e
                | Inr (t, obj) \<Rightarrow> Inr \<lparr>table = t, pending = None, persistent = obj\<rparr>)))"

text \<open>
  \<^verbatim>\<open>session.refresh(item)\<close>, for the object the session holds: its attributes are read
  again from its row. The result is the object as the caller sees it afterwards.
\<close>

definition session_refresh :: "faults \<Rightarrow> session \<Rightarrow> storage_exn + Item" where
  "session_refresh f s =
     (case f Refresh of
        Some e \<Rightarrow> Inl e
      | None \<Rightarrow>
          (case persistent s of
             None \<Rightarrow> Inl (SQLAlchemyError ''Instance is not persistent within this Session'')
           | Some obj \<Rightarrow>
               (case find (\<lambda>r. id' r = id' obj) (table s) of
                  None \<Rightarrow> Inl (SQLAlchemyError ''Could not refresh instance'')
                | Some r \<Rightarrow> Inr r)))"

text \<open>\<^verbatim>\<open>session.rollback()\<close>: the write in flight is dropped.\<close>

definition session_rollback :: "faults \<Rightarrow> session \<Rightarrow> storage_exn + session" where
  "session_rollback f s =
     (case f Rollback of
        Some e \<Rightarrow> Inl e
      | None \<Rightarrow> Inr (s\<lparr>pending := None\<rparr>))"

text \<open>
  \<^verbatim>\<open>session.exec(select(Item)).all()\<close>. The statement has no ORDER BY. SQLite keeps a
  table with an integer primary key as a B-tree on that key and scans it in key order,
  so the rows come back by ascending \<^verbatim>\<open>id\<close>.
\<close>

definition rowid :: "Item \<Rightarrow> int" where
  "rowid r = (case id' r of PInt k \<Rightarrow> k | _ \<Rightarrow> 0)"

definition session_exec_select :: "faults \<Rightarrow> session \<Rightarrow> storage_exn + Item list" where
  "session_exec_select f s =
     (case f Exec of
        Some e \<Rightarrow> Inl e
      | None \<Rightarrow> Inr (sort_key rowid (table s)))"

section \<open>The repository: \<^verbatim>\<open>app/crud.py\<close>\<close>

text \<open>
  A function of the repository takes the session and returns it as the call leaves it,
  with the value returned (\<open>Inr\<close>) or the exception raised (\<open>Inl\<close>). The calls of
  the logger write a line and do nothing else; they are left out.

  Every handler of a write ends the same way: \<^verbatim>\<open>session.rollback()\<close>, then the message
  is built and \<^verbatim>\<open>ItemCRUDError(error_msg)\<close> is raised. An exception raised by the
  rollback itself leaves the handler as it is.
\<close>

definition rollback_raise :: "faults \<Rightarrow> session \<Rightarrow> string \<Rightarrow> session \<times> (exn + 'a)" where
  "rollback_raise f s error_msg =
     (case session_rollback f s of
        Inl e \<Rightarrow> (s, Inl (Storage e))
      | Inr s' \<Rightarrow> (s', Inl (ItemCRUDError error_msg)))"

subsection \<open>\<^verbatim>\<open>create_item\<close>\<close>

definition create_item_try :: "faults \<Rightarrow> session \<Rightarrow> Item \<Rightarrow> session \<times> (storage_exn + Item)" where
  "create_item_try f s item =
     (case session_add f s item of
        Inl e \<Rightarrow> (s, Inl e)
      | Inr s1 \<Rightarrow>
          (case session_commit f s1 of
             Inl e \<Rightarrow> (s1, Inl e)
           | Inr s2 \<Rightarrow>
               (case session_refresh f s2 of
                  Inl e \<Rightarrow> (s2, Inl e)
                | Inr created \<Rightarrow> (s2, Inr created))))"

definition create_item :: "faults \<Rightarrow> session \<Rightarrow> Item \<Rightarrow> session \<times> (exn + Item)" where
  "create_item f s item =
     (case create_item_try f s item of
        (s', Inr created) \<Rightarrow> (s', Inr created)
      | (s', Inl (IntegrityError m)) \<Rightarrow>
          rollback_raise f s'
            (''Error de integridad al crear '' @ i_acute @ ''tem ''
               @ quoted (str_pyval (name item)) @ '': '' @ m)
      | (s', Inl (SQLAlchemyError m)) \<Rightarrow>
          rollback_raise f s'
            (''Error de base de datos al crear '' @ i_acute @ ''tem ''
               @ quoted (str_pyval (name item)) @ '': '' @ m)
      | (s', Inl (OtherException m)) \<Rightarrow>
          rollback_raise f s'
            (''Error inesperado al crear '' @ i_acute @ ''tem ''
               @ quoted (str_pyval (name item)) @ '': '' @ m))"

subsection \<open>\<^verbatim>\<open>get_items\<close>\<close>

text \<open>Its handlers do not roll back: nothing was written.\<close>

definition get_items :: "faults \<Rightarrow> session \<Rightarrow> session \<times> (exn + Item list)" where
  "get_items f s =
     (case session_exec_select f s of
        Inr items \<Rightarrow> (s, Inr items)
      | Inl (IntegrityError m) \<Rightarrow>
          (s, Inl (ItemCRUDError
                (''Error de base de datos al consultar '' @ i_acute @ ''tems: '' @ m)))
      | Inl (SQLAlchemyError m) \<Rightarrow>
          (s, Inl (ItemCRUDError
                (''Error de base de datos al consultar '' @ i_acute @ ''tems: '' @ m)))
      | Inl (OtherException m) \<Rightarrow>
          (s, Inl (ItemCRUDError
                (''Error inesperado al consultar '' @ i_acute @ ''tems: '' @ m))))"

subsection \<open>\<^verbatim>\<open>get_item_by_id\<close>\<close>

definition get_item_by_id :: "faults \<Rightarrow> session \<Rightarrow> int \<Rightarrow> session \<times> (exn + Item option)" where
  "get_item_by_id f s item_id =
     (case session_get f s item_id of
        Inr (s', item) \<Rightarrow> (s', Inr item)
      | Inl (IntegrityError m) \<Rightarrow>
          (s, Inl (ItemCRUDError
                (''Error de base de datos al consultar '' @ i_acute @ ''tem con ID ''
                   @ str_int item_id @ '': '' @ m)))
      | Inl (SQLAlchemyError m) \<Rightarrow>
          (s, Inl (ItemCRUDError
                (''Error de base de datos al consultar '' @ i_acute @ ''tem con ID ''
                   @ str_int item_id @ '': '' @ m)))
      | Inl (OtherException m) \<Rightarrow>
          (s, Inl (ItemCRUDError
                (''Error inesperado al consultar '' @ i_acute @ ''tem con ID ''
                   @ str_int item_id @ '': '' @ m))))"

subsection \<open>\<^verbatim>\<open>update_item\<close>\<close>

text \<open>
  The loop over \<^verbatim>\<open>item_data.items()\<close>: the payload is the list of its pairs in the
  order of the dictionary.
\<close>

fun update_fields :: "(string \<times> pyval) list \<Rightarrow> Item \<Rightarrow> Item" where
  "update_fields [] item = item"
| "update_fields ((field, v) # rest) item =
     update_fields rest (if hasattr item field then setattr item field v else item)"

definition update_item_try ::
  "faults \<Rightarrow> session \<Rightarrow> int \<Rightarrow> (string \<times> pyval) list \<Rightarrow> session \<times> (storage_exn + Item option)" where
  "update_item_try f s item_id item_data =
     (case session_get f s item_id of
        Inl e \<Rightarrow> (s, Inl e)
      | Inr (s1, None) \<Rightarrow> (s1, Inr None)
      | Inr (s1, Some item) \<Rightarrow>
          (case session_add f s1 (update_fields item_data item) of
             Inl e \<Rightarrow> (s1, Inl e)
           | Inr s2 \<Rightarrow>
               (case session_commit f s2 of
                  Inl e \<Rightarrow> (s2, Inl e)
                | Inr s3 \<Rightarrow>
                    (case session_refresh f s3 of
                       Inl e \<Rightarrow> (s3, Inl e)
                     | Inr updated \<Rightarrow> (s3, Inr (Some updated))))))"

definition update_item ::
  "faults \<Rightarrow> session \<Rightarrow> int \<Rightarrow> (string \<times> pyval) list \<Rightarrow> session \<times> (exn + Item option)" where
  "update_item f s item_id item_data =
     (case update_item_try f s item_id item_data of
        (s', Inr r) \<Rightarrow> (s', Inr r)
      | (s', Inl (IntegrityError m)) \<Rightarrow>
          rollback_raise f s'
            (''Error de integridad al actualizar '' @ i_acute @ ''tem con ID ''
               @ str_int item_id @ '': '' @ m)
      | (s', Inl (SQLAlchemyError m)) \<Rightarrow>
          rollback_raise f s'
            (''Error de base de datos al actualizar '' @ i_acute @ ''tem con ID ''
               @ str_int item_id @ '': '' @ m)
      | (s', Inl (OtherException m)) \<Rightarrow>
          rollback_raise f s'
            (''Error inesperado al actualizar '' @ i_acute @ ''tem con ID ''
               @ str_int item_id @ '': '' @ m))"

subsection \<open>\<^verbatim>\<open>delete_item\<close>\<close>

definition delete_item_try :: "faults \<Rightarrow> session \<Rightarrow> int \<Rightarrow> session \<times> (storage_exn + bool)" where
  "delete_item_try f s item_id =
     (case session_get f s item_id of
        Inl e \<Rightarrow> (s, Inl e)
      | Inr (s1, None) \<Rightarrow> (s1, Inr False)
      | Inr (s1, Some item) \<Rightarrow>
          (case session_delete f s1 item of
             Inl e \<Rightarrow> (s1, Inl e)
           | Inr s2 \<Rightarrow>
               (case session_commit f s2 of
                  Inl e \<Rightarrow> (s2, Inl e)
                | Inr s3 \<Rightarrow> (s3, Inr True))))"

definition delete_item :: "faults \<Rightarrow> session \<Rightarrow> int \<Rightarrow> session \<times> (exn + bool)" where
  "delete_item f s item_id =
     (case delete_item_try f s item_id of
        (s', Inr r) \<Rightarrow> (s', Inr r)
      | (s', Inl (IntegrityError m)) \<Rightarrow>
          rollback_raise f s'
            (''Error de base de datos al eliminar '' @ i_acute @ ''tem con ID ''
               @ str_int item_id @ '': '' @ m)
      | (s', Inl (SQLAlchemyError m)) \<Rightarrow>
          rollback_raise f s'
            (''Error de base de datos al eliminar '' @ i_acute @ ''tem con ID ''
               @ str_int item_id @ '': '' @ m)
      | (s', Inl (OtherException m)) \<Rightarrow>
          rollback_raise f s'
            (''Error inesperado al eliminar '' @ i_acute @ ''tem con ID ''
               @ str_int item_id @ '': '' @ m))"

section \<open>The HTTP layer: \<^verbatim>\<open>app/main.py\<close>\<close>

text \<open>
  A handler gets its session from \<^verbatim>\<open>get_session\<close>: it takes the stored table and
  returns the table the request leaves behind, with the value it returns or the
  exception it raises. Each handler is its \<^verbatim>\<open>try\<close> body followed by its
  \<^verbatim>\<open>except\<close> clauses in the order of the source.
\<close>

definition generic_detail :: string where
  "generic_detail = ''Error interno del servidor''"

definition not_found_detail :: "int \<Rightarrow> string" where
  "not_found_detail item_id = I_acute @ ''tem con ID '' @ str_int item_id @ '' no encontrado''"


definition read_all :: "faults \<Rightarrow> Item list \<Rightarrow> Item list \<times> (exn + Item list)" where
  "read_all f db =
     (case get_items f (get_session db) of
        (s, Inr items) \<Rightarrow> (table s, Inr items)
      | (s, Inl (ItemCRUDError m)) \<Rightarrow> (table s, Inl (HTTPException 400 m))
      | (s, Inl e) \<Rightarrow> (table s, Inl (HTTPException 500 generic_detail)))"

definition read_one_try :: "faults \<Rightarrow> Item list \<Rightarrow> int \<Rightarrow> Item list \<times> (exn + Item)" where
  "read_one_try f db item_id =
     (case get_item_by_id f (get_session db) item_id of
        (s, Inl e) \<Rightarrow> (table s, Inl e)
      | (s, Inr None) \<Rightarrow> (table s, Inl (HTTPException 404 (not_found_detail item_id)))
      | (s, Inr (Some item)) \<Rightarrow> (table s, Inr item))"

definition read_one :: "faults \<Rightarrow> Item list \<Rightarrow> int \<Rightarrow> Item list \<times> (exn + Item)" where
  "read_one f db item_id =
     (case read_one_try f db item_id of
        (db', Inr item) \<Rightarrow> (db', Inr item)
      | (db', Inl (HTTPException c d)) \<Rightarrow> (db', Inl (HTTPException c d))
      | (db', Inl (ItemCRUDError m)) \<Rightarrow> (db', Inl (HTTPException 400 m))
      | (db', Inl e) \<Rightarrow> (db', Inl (HTTPException 500 generic_detail)))"

definition update_try ::
  "faults \<Rightarrow> Item list \<Rightarrow> int \<Rightarrow> (string \<times> pyval) list \<Rightarrow> Item list \<times> (exn + Item)" where
  "update_try f db item_id item_data =
     (case update_item f (get_session db) item_id item_data of
        (s, Inl e) \<Rightarrow> (table s, Inl e)
      | (s, Inr None) \<Rightarrow> (table s, Inl (HTTPException 404 (not_found_detail item_id)))
      | (s, Inr (Some updated_item)) \<Rightarrow> (table s, Inr updated_item))"

definition update ::
  "faults \<Rightarrow> Item list \<Rightarrow> int \<Rightarrow> (string \<times> pyval) list \<Rightarrow> Item list \<times> (exn + Item)" where
  "update f db item_id item_data =
     (case update_try f db item_id item_data of
        (db', Inr updated_item) \<Rightarrow> (db', Inr updated_item)
      | (db', Inl (HTTPException c d)) \<Rightarrow> (db', Inl (HTTPException c d))
      | (db', Inl (ItemCRUDError m)) \<Rightarrow> (db', Inl (HTTPException 400 m))
      | (db', Inl e) \<Rightarrow> (db', Inl (HTTPException 500 generic_detail)))"

definition delete_try :: "faults \<Rightarrow> Item list \<Rightarrow> int \<Rightarrow> Item list \<times> (exn + unit)" where
  "delete_try f db item_id =
     (case delete_item f (get_session db) item_id of
        (s, Inl e) \<Rightarrow> (table s, Inl e)
      | (s, Inr False) \<Rightarrow> (table s, Inl (HTTPException 404 (not_found_detail item_id)))
      | (s, Inr True) \<Rightarrow> (table s, Inr ()))"

definition delete :: "faults \<Rightarrow> Item list \<Rightarrow> int \<Rightarrow> Item list \<times> (exn + unit)" where
  "delete f db item_id =
     (case delete_try f db item_id of
        (db', Inr u) \<Rightarrow> (db', Inr u)
      | (db', Inl (HTTPException c d)) \<Rightarrow> (db', Inl (HTTPException c d))
      | (db', Inl (ItemCRUDError m)) \<Rightarrow> (db', Inl (HTTPException 400 m))
      | (db', Inl e) \<Rightarrow> (db', Inl (HTTPException 500 generic_detail)))"

subsection \<open>Responses\<close>

text \<open>
  What FastAPI sends for a handler: the route's success status with the value returned,
  or the status and detail of the HTTPException raised. Status 204 has no body.
\<close>

datatype content = Empty | JsonItem Item | JsonItems "Item list" | Detail string

datatype response = Response nat content

definition respond :: "nat \<Rightarrow> ('a \<Rightarrow> content) \<Rightarrow> exn + 'a \<Rightarrow> response" where
  "respond status_code encode r =
     (case r of
        Inr v \<Rightarrow> Response status_code (encode v)
      | Inl (HTTPException c d) \<Rightarrow> Response c (Detail d)
      | Inl e \<Rightarrow> Response 500 (Detail ''Internal Server Error''))"


definition GET_items :: "faults \<Rightarrow> Item list \<Rightarrow> Item list \<times> response" where
  "GET_items f db = (case read_all f db of (db', r) \<Rightarrow> (db', respond 200 JsonItems r))"

definition GET_item :: "faults \<Rightarrow> Item list \<Rightarrow> int \<Rightarrow> Item list \<times> response" where
  "GET_item f db item_id =
     (case read_one f db item_id of (db', r) \<Rightarrow> (db', respond 200 JsonItem r))"


definition DELETE_item :: "faults \<Rightarrow> Item list \<Rightarrow> int \<Rightarrow> Item list \<times> response" where
  "DELETE_item f db item_id =
     (case delete f db item_id of (db', r) \<Rightarrow> (db', respond 204 (\<lambda>u. Empty) r))"

text \<open>No call of the storage fails.\<close>

definition no_faults :: faults where
  "no_faults = (\<lambda>c. None)"


section \<open>Facts about the storage\<close>

lemma fold_max_ge: "x \<in> set (k # ks) \<Longrightarrow> x \<le> fold max ks (k::int)"
proof -
  assume "x \<in> set (k # ks)"
  then have "x \<le> Max (set (k # ks))" by (intro Max_ge) auto
  then show ?thesis by (simp only: Max.set_eq_fold)
qed

lemma fresh_id_notin: "fresh_id t \<notin> set (row_ids t)"
proof
  assume h: "fresh_id t \<in> set (row_ids t)"
  show False
  proof (cases "row_ids t")
    case Nil
    with h show False by simp
  next
    case (Cons k ks)
    with h have "fresh_id t \<le> fold max ks k" by (simp only: fold_max_ge)
    with Cons show False by (simp add: fresh_id_def)
  qed
qed

lemma find_id_None: "k \<notin> set (row_ids t) \<Longrightarrow> find (\<lambda>r. id' r = PInt k) t = None"
  by (induction t) (auto split: pyval.splits)

lemma find_id_None_iff: "find (\<lambda>r. id' r = PInt k) t = None \<longleftrightarrow> k \<notin> set (row_ids t)"
  by (induction t) (auto split: pyval.splits)

lemma find_append:
  "find P (xs @ ys) = (case find P xs of None \<Rightarrow> find P ys | Some x \<Rightarrow> Some x)"
  by (induction xs) auto

section \<open>Create, then get\<close>

text \<open>
  C1. Creating an item that carries no id and has a name, with the storage answering every
  call, returns the item with an id the storage assigned (an integer that no stored row
  had) and the same name; the row is appended to the table; and a get by that id on the
  table the create left returns an item equal to the one create returned.
\<close>

theorem create_then_get:
  assumes "f Add = None" and "f Commit = None" and "f Refresh = None" and "g Get = None"
    and "id' item = PNone" and "name item = PStr n"
  shows "create_item f (get_session db) item =
           (\<lparr>table = db @ [item\<lparr>id' := PInt (fresh_id db)\<rparr>], pending = None,
             persistent = Some (item\<lparr>id' := PInt (fresh_id db)\<rparr>)\<rparr>,
            Inr (item\<lparr>id' := PInt (fresh_id db)\<rparr>))
       \<and> fresh_id db \<notin> set (row_ids db)
       \<and> name (item\<lparr>id' := PInt (fresh_id db)\<rparr>) = PStr n
       \<and> snd (get_item_by_id g (get_session (db @ [item\<lparr>id' := PInt (fresh_id db)\<rparr>]))
                (fresh_id db))
           = Inr (Some (item\<lparr>id' := PInt (fresh_id db)\<rparr>))"
proof -
  let ?c = "item\<lparr>id' := PInt (fresh_id db)\<rparr>"
  have fresh: "fresh_id db \<notin> set (row_ids db)" by (rule fresh_id_notin)
  have look: "find (\<lambda>r. id' r = PInt (fresh_id db)) (db @ [?c]) = Some ?c"
    using find_id_None [OF fresh] by (simp add: find_append)
  have "create_item_try f (get_session db) item =
          (\<lparr>table = db @ [?c], pending = None, persistent = Some ?c\<rparr>, Inr ?c)"
    using assms look
    by (simp add: create_item_try_def session_add_def session_commit_def session_refresh_def
        get_session_def flush_def Let_def)
  then have c: "create_item f (get_session db) item =
          (\<lparr>table = db @ [?c], pending = None, persistent = Some ?c\<rparr>, Inr ?c)"
    by (simp add: create_item_def)
  have g: "snd (get_item_by_id g (get_session (db @ [?c])) (fresh_id db)) = Inr (Some ?c)"
    using assms(4) look by (simp add: get_item_by_id_def session_get_def get_session_def Let_def)
  from c fresh g assms(6) show ?thesis by simp
qed

theorem create_then_get_witness:
  "create_item no_faults (get_session []) \<lparr>id' = PNone, name = PStr ''Widget'', extra = []\<rparr> =
     (\<lparr>table = [\<lparr>id' = PInt 1, name = PStr ''Widget'', extra = []\<rparr>], pending = None,
       persistent = Some \<lparr>id' = PInt 1, name = PStr ''Widget'', extra = []\<rparr>\<rparr>,
      Inr \<lparr>id' = PInt 1, name = PStr ''Widget'', extra = []\<rparr>)
   \<and> snd (get_item_by_id no_faults
            (get_session [\<lparr>id' = PInt 1, name = PStr ''Widget'', extra = []\<rparr>]) 1)
       = Inr (Some \<lparr>id' = PInt 1, name = PStr ''Widget'', extra = []\<rparr>)"
  using create_then_get [of no_faults no_faults
      "\<lparr>id' = PNone, name = PStr ''Widget'', extra = []\<rparr>" "''Widget''" "[]"]
  by (simp add: no_faults_def fresh_id_def)

lemma find_id_Some: "find (\<lambda>r. id' r = PInt k) t = Some r \<Longrightarrow> id' r = PInt k"
  by (induction t) (auto split: if_splits)

lemma find_filter_None: "find P (filter (\<lambda>r. \<not> P r) t) = None"
  by (induction t) auto

lemma absent_get:
  "f Get = None \<Longrightarrow> find (\<lambda>r. id' r = PInt item_id) (table s) = None \<Longrightarrow>
   get_item_by_id f s item_id = (s\<lparr>persistent := None\<rparr>, Inr None)"
  by (simp add: get_item_by_id_def session_get_def Let_def)

lemma absent_update:
  "f Get = None \<Longrightarrow> find (\<lambda>r. id' r = PInt item_id) (table s) = None \<Longrightarrow>
   update_item f s item_id item_data = (s\<lparr>persistent := None\<rparr>, Inr None)"
  by (simp add: update_item_def update_item_try_def session_get_def Let_def)

lemma absent_delete:
  "f Get = None \<Longrightarrow> find (\<lambda>r. id' r = PInt item_id) (table s) = None \<Longrightarrow>
   delete_item f s item_id = (s\<lparr>persistent := None\<rparr>, Inr False)"
  by (simp add: delete_item_def delete_item_try_def session_get_def Let_def)

section \<open>A missing row\<close>



text \<open>
  C10. In the handlers keyed by an id (get, update, delete), the 404 that the \<^verbatim>\<open>try\<close>
  body raises for an absent id leaves the handler as the same exception, with the same
  status and detail: the later clauses do not turn it into a 400 or a 500.
\<close>

theorem not_found_is_reraised:
  assumes "f Get = None" and "find (\<lambda>r. id' r = PInt item_id) db = None"
  shows "read_one_try f db item_id = (db, Inl (HTTPException 404 (not_found_detail item_id)))
       \<and> read_one f db item_id = (db, Inl (HTTPException 404 (not_found_detail item_id)))
       \<and> update_try f db item_id item_data = (db, Inl (HTTPException 404 (not_found_detail item_id)))
       \<and> update f db item_id item_data = (db, Inl (HTTPException 404 (not_found_detail item_id)))
       \<and> delete_try f db item_id = (db, Inl (HTTPException 404 (not_found_detail item_id)))
       \<and> delete f db item_id = (db, Inl (HTTPException 404 (not_found_detail item_id)))"
proof -
  have t: "find (\<lambda>r. id' r = PInt item_id) (table (get_session db)) = None"
    using assms(2) by (simp add: get_session_def)
  have r: "read_one_try f db item_id = (db, Inl (HTTPException 404 (not_found_detail item_id)))"
    using absent_get [of f item_id "get_session db"] assms(1) t
    by (simp add: read_one_try_def get_session_def)
  have u: "update_try f db item_id item_data = (db, Inl (HTTPException 404 (not_found_detail item_id)))"
    using absent_update [of f item_id "get_session db" item_data] assms(1) t
    by (simp add: update_try_def get_session_def)
  have d: "delete_try f db item_id = (db, Inl (HTTPException 404 (not_found_detail item_id)))"
    using absent_delete [of f item_id "get_session db"] assms(1) t
    by (simp add: delete_try_def get_session_def)
  show ?thesis
    using r u d by (simp add: read_one_def update_def delete_def)
qed

theorem not_found_is_reraised_witness:
  "read_one no_faults [] 99999 = ([], Inl (HTTPException 404 (I_acute @ ''tem con ID 99999 no encontrado'')))
   \<and> update no_faults [] 99999 [(''name'', PStr ''New'')] = ([], Inl (HTTPException 404 (I_acute @ ''tem con ID 99999 no encontrado'')))
   \<and> delete no_faults [] 99999 = ([], Inl (HTTPException 404 (I_acute @ ''tem con ID 99999 no encontrado'')))"
proof -
  have d: "not_found_detail 99999 = I_acute @ ''tem con ID 99999 no encontrado''"
    by (simp add: not_found_detail_def str_int_def digits.simps)
  show ?thesis
    using not_found_is_reraised [of no_faults 99999 "[]" "[(''name'', PStr ''New'')]"]
    by (simp add: no_faults_def d)
qed

lemma deleted_row:
  assumes "f Get = None" and "f Delete = None" and "f Commit = None"
    and "find (\<lambda>r. id' r = PInt item_id) db = Some r"
  shows "delete_item f (get_session db) item_id =
           (\<lparr>table = filter (\<lambda>r. id' r \<noteq> PInt item_id) db, pending = None, persistent = None\<rparr>,
            Inr True)"
  using assms find_id_Some [OF assms(4)]
  by (simp add: delete_item_def delete_item_try_def session_get_def session_delete_def
      session_commit_def flush_def get_session_def Let_def)

section \<open>Delete, then get, then delete again\<close>

text \<open>
  C6. Deleting an id that has a row, with the storage answering every call, responds 204
  with an empty body; a get of that id then responds 404, and a second delete of it
  responds 404 as well.
\<close>

theorem delete_then_absent:
  assumes "f Get = None" and "f Delete = None" and "f Commit = None"
    and "g Get = None" and "h Get = None"
    and "find (\<lambda>r. id' r = PInt item_id) db = Some r"
  shows "DELETE_item f db item_id = (filter (\<lambda>r. id' r \<noteq> PInt item_id) db, Response 204 Empty)
       \<and> GET_item g (filter (\<lambda>r. id' r \<noteq> PInt item_id) db) item_id =
           (filter (\<lambda>r. id' r \<noteq> PInt item_id) db, Response 404 (Detail (not_found_detail item_id)))
       \<and> DELETE_item h (filter (\<lambda>r. id' r \<noteq> PInt item_id) db) item_id =
           (filter (\<lambda>r. id' r \<noteq> PInt item_id) db, Response 404 (Detail (not_found_detail item_id)))"
proof -
  let ?db = "filter (\<lambda>r. id' r \<noteq> PInt item_id) db"
  have gone: "find (\<lambda>r. id' r = PInt item_id) (table (get_session ?db)) = None"
    using find_filter_None [of "\<lambda>r. id' r = PInt item_id" db] by (simp add: get_session_def)
  have a: "DELETE_item f db item_id = (?db, Response 204 Empty)"
    using deleted_row [OF assms(1,2,3,6)]
    by (simp add: DELETE_item_def delete_def delete_try_def respond_def)
  have b: "GET_item g ?db item_id = (?db, Response 404 (Detail (not_found_detail item_id)))"
    using absent_get [of g item_id "get_session ?db"] assms(4) gone
    by (simp add: GET_item_def read_one_def read_one_try_def respond_def get_session_def)
  have c: "DELETE_item h ?db item_id = (?db, Response 404 (Detail (not_found_detail item_id)))"
    using absent_delete [of h item_id "get_session ?db"] assms(5) gone
    by (simp add: DELETE_item_def delete_def delete_try_def respond_def get_session_def)
  from a b c show ?thesis by simp
qed

theorem delete_then_absent_witness:
  "DELETE_item no_faults [\<lparr>id' = PInt 1, name = PStr ''Widget'', extra = []\<rparr>] 1 = ([], Response 204 Empty)
   \<and> GET_item no_faults [] 1 = ([], Response 404 (Detail (not_found_detail 1)))
   \<and> DELETE_item no_faults [] 1 = ([], Response 404 (Detail (not_found_detail 1)))"
  using delete_then_absent [of no_faults no_faults no_faults 1
      "[\<lparr>id' = PInt 1, name = PStr ''Widget'', extra = []\<rparr>]"
      "\<lparr>id' = PInt 1, name = PStr ''Widget'', extra = []\<rparr>"]
  by (simp add: no_faults_def)

section \<open>Errors at the HTTP boundary\<close>














section \<open>The list route\<close>

text \<open>
  C9, as stated, fails: a storage failure of the query makes the list route respond 400.
  \<^verbatim>\<open>get_items\<close> turns every exception of the query into ItemCRUDError, and
  \<^verbatim>\<open>read_all\<close> has a clause that answers ItemCRUDError with 400.
\<close>

theorem list_route_400_counterexample:
  "snd (GET_items (\<lambda>c. if c = Exec then Some (SQLAlchemyError ''database is locked'') else None) [])
     = Response 400 (Detail (''Error de base de datos al consultar '' @ i_acute
          @ ''tems: database is locked''))"
  by (simp add: GET_items_def read_all_def get_items_def session_exec_select_def respond_def
      get_session_def)

text \<open>
  C9, amended. The list route responds 200 with the rows when the query is answered, and
  400 with the repository error's message when the query raises, whatever it raises; it
  has no other response: neither 404 nor, since \<^verbatim>\<open>get_items\<close> lets no other exception
  through, 500.
\<close>

theorem list_route_responses:
  "(f Exec = None \<longrightarrow> GET_items f db = (db, Response 200 (JsonItems (sort_key rowid db))))
   \<and> (\<forall>e. f Exec = Some e \<longrightarrow>
        (\<exists>m. get_items f (get_session db) = (get_session db, Inl (ItemCRUDError m))
             \<and> GET_items f db = (db, Response 400 (Detail m))))"
  by (auto simp: GET_items_def read_all_def get_items_def session_exec_select_def respond_def
      get_session_def split: storage_exn.splits)

theorem list_route_responses_witness:
  "GET_items no_faults [\<lparr>id' = PInt 1, name = PStr ''Widget'', extra = []\<rparr>]
     = ([\<lparr>id' = PInt 1, name = PStr ''Widget'', extra = []\<rparr>],
        Response 200 (JsonItems [\<lparr>id' = PInt 1, name = PStr ''Widget'', extra = []\<rparr>]))
   \<and> (\<exists>m. GET_items (\<lambda>c. if c = Exec then Some (OtherException ''boom'') else None) []
              = ([], Response 400 (Detail m)))"
  using list_route_responses [of no_faults "[\<lparr>id' = PInt 1, name = PStr ''Widget'', extra = []\<rparr>]"]
    list_route_responses [of "\<lambda>c. if c = Exec then Some (OtherException ''boom'') else None" "[]"]
  by (auto simp: no_faults_def)

section \<open>Assigning the fields of a payload\<close>

lemma keys_assign:
  "fst ` (\<lambda>(k, x). if k = field then (k, v) else (k, x)) ` S = fst ` S"
proof -
  have "fst \<circ> (\<lambda>(k, x). if k = field then (k, v) else (k, x)) = fst"
    by (auto simp: fun_eq_iff)
  then show ?thesis by (simp add: image_comp)
qed

lemma hasattr_setattr: "hasattr (setattr item field v) a = hasattr item a"
  by (simp add: hasattr_def setattr_def keys_assign)





lemma hasattr_update_fields: "hasattr (update_fields item_data item) a = hasattr item a"
  by (induction item_data item rule: update_fields.induct) (simp_all add: hasattr_setattr)







section \<open>Update\<close>



section \<open>Failures of a write\<close>


















section \<open>The id of a stored item\<close>














section \<open>The order of the list\<close>

















end
